theory Spec2Isabelle
  imports Main
begin

section \<open>Data model of \<open>module.go\<close>\<close>

text \<open>
  Go's \<open>error\<close> values as the module builds them: \<open>errors.New(s)\<close> and
  \<open>fmt.Errorf\<close> without \<open>%w\<close> give \<open>Msg\<close> with the formatted text;
  \<open>fmt.Errorf("prefix: %w", err)\<close> gives \<open>Wrap\<close> of the text before the
  wrapped error and that error. Errors coming out of a provider are values of the same type.
\<close>

datatype error = Msg string | Wrap string error

text \<open>
  Modelled from the spec: the package \<open>provider\<close> (the type \<open>Record\<close> and the
  interface \<open>DNSService\<close>) is imported by \<open>module.go\<close> and is not among the sources.
  \<open>handleDomain\<close> reads the fields \<open>IP\<close> and \<open>Enabled\<close> of a record; the domain name
  is the third attribute the spec lists.
\<close>

record Record =
  Domain :: string
  IP :: string
  Enabled :: bool

text \<open>
  Modelled from the spec: the interface \<open>provider.DNSService\<close>, with the three methods
  \<open>handleDomain\<close> calls. A method acts on the outside world \<open>'w\<close> (the backend the
  instance talks to): it takes the world and returns its result with the world it leaves.
  \<open>FindRecord\<close> returns \<open>(*Record, error)\<close>: \<open>Inl\<close> the error, \<open>Inr None\<close> the nil
  record, \<open>Inr (Some r)\<close> a record. The two writes return \<open>error\<close>: \<open>None\<close> is nil.
\<close>

record 'w DNSService =
  FindRecord :: "string \<Rightarrow> 'w \<Rightarrow> (error + Record option) \<times> 'w"
  CreateRecord :: "string \<Rightarrow> string \<Rightarrow> 'w \<Rightarrow> error option \<times> 'w"
  UpdateRecord :: "string \<Rightarrow> string \<Rightarrow> 'w \<Rightarrow> error option \<times> 'w"

record ProviderConfig =
  Type :: string
  Hostname :: string
  APIKey :: string
  APISecret :: string
  DNSService :: string
  Insecure :: bool

text \<open>
  \<open>App\<close>. The Go map \<open>Providers\<close> is kept as the list of its entries in the order
  \<open>range\<close> yields them, which Go leaves unspecified: every theorem below holds for every
  order. The values are pointers, so an entry may hold nil (\<open>None\<close>). The logger is the
  log of the state below.
\<close>

record 'w App =
  Providers :: "(string \<times> ProviderConfig option) list"
  CaddyIP :: string
  Debug :: bool
  clients :: "string \<rightharpoonup> 'w DNSService"

record 'w Handler =
  Provider :: string
  IPOverride :: string
  app :: "'w App"

text \<open>The one field of \<open>http.Request\<close> the handler reads; the others are the record's extension.\<close>

record Request =
  Host :: string

subsection \<open>Effects: the log, the provider calls, the outside world\<close>

datatype level = InfoLevel | ErrorLevel

datatype field = zap_String string string | zap_Bool string bool | zap_Error error

type_synonym entry = "level \<times> string \<times> field list"

text \<open>The provider methods the engine invokes, in the order it invokes them.\<close>

datatype call =
    FindRecordCall string
  | CreateRecordCall string string
  | UpdateRecordCall string string

record 'w state =
  world :: 'w
  calls :: "call list"
  logs :: "entry list"

definition logger_Info :: "string \<Rightarrow> field list \<Rightarrow> 'w state \<Rightarrow> 'w state" where
  "logger_Info msg fs s = s\<lparr>logs := logs s @ [(InfoLevel, msg, fs)]\<rparr>"

definition logger_Error :: "string \<Rightarrow> field list \<Rightarrow> 'w state \<Rightarrow> 'w state" where
  "logger_Error msg fs s = s\<lparr>logs := logs s @ [(ErrorLevel, msg, fs)]\<rparr>"

text \<open>Invoking a method of a provider instance: the call is recorded and the world moves on.\<close>

definition call_FindRecord ::
  "'w DNSService \<Rightarrow> string \<Rightarrow> 'w state \<Rightarrow> (error + Record option) \<times> 'w state" where
  "call_FindRecord p domain s =
     (let (r, w') = FindRecord p domain (world s)
      in (r, s\<lparr>world := w', calls := calls s @ [FindRecordCall domain]\<rparr>))"

definition call_CreateRecord ::
  "'w DNSService \<Rightarrow> string \<Rightarrow> string \<Rightarrow> 'w state \<Rightarrow> error option \<times> 'w state" where
  "call_CreateRecord p domain ip s =
     (let (r, w') = CreateRecord p domain ip (world s)
      in (r, s\<lparr>world := w', calls := calls s @ [CreateRecordCall domain ip]\<rparr>))"

definition call_UpdateRecord ::
  "'w DNSService \<Rightarrow> string \<Rightarrow> string \<Rightarrow> 'w state \<Rightarrow> error option \<times> 'w state" where
  "call_UpdateRecord p domain ip s =
     (let (r, w') = UpdateRecord p domain ip (world s)
      in (r, s\<lparr>world := w', calls := calls s @ [UpdateRecordCall domain ip]\<rparr>))"

fun is_write :: "call \<Rightarrow> bool" where
  "is_write (FindRecordCall d) = False"
| "is_write (CreateRecordCall d ip) = True"
| "is_write (UpdateRecordCall d ip) = True"

definition writes :: "call list \<Rightarrow> call list" where
  "writes cs = filter is_write cs"

section \<open>The domain of a request\<close>

text \<open>
  \<open>strings.LastIndex(s, ":")\<close> of the Go library, for the one-byte separator the handler
  passes: the index of the last occurrence of the byte, \<open>-1\<close> when there is none.
\<close>

fun LastIndex :: "string \<Rightarrow> char \<Rightarrow> int" where
  "LastIndex [] c = - 1"
| "LastIndex (x # xs) c =
     (let i = LastIndex xs c
      in if i \<noteq> - 1 then i + 1 else if x = c then 0 else - 1)"

text \<open>Lines 144 to 149 of \<open>ServeHTTP\<close>: the host with its port removed.\<close>

definition request_domain :: "string \<Rightarrow> string" where
  "request_domain host =
     (let domain = host; colonIndex = LastIndex domain CHR '':''
      in if colonIndex \<noteq> - 1 then take (nat colonIndex) domain else domain)"

section \<open>What the module takes from outside\<close>

text \<open>
  \<open>net.ParseIP\<close> belongs to the Go library, so the functions below take it as the
  parameter \<open>ParseIP\<close>: \<open>None\<close> is the nil it returns for text that is not an IP
  address. The constructor \<open>provider.NewOPNsenseProvider\<close> belongs to the absent package
  \<open>provider\<close> and is the parameter \<open>NewOPNsenseProvider\<close>, applied to the host name,
  the key, the secret, the DNS service, the insecure flag and the debug flag
  (the logger it also receives is the log of the state).
\<close>

type_synonym 'w constructor =
  "string \<Rightarrow> string \<Rightarrow> string \<Rightarrow> string \<Rightarrow> bool \<Rightarrow> bool \<Rightarrow> error + 'w DNSService"

section \<open>The reconciliation engine: \<open>Handler.handleDomain\<close>\<close>

definition handleDomain ::
  "(string \<Rightarrow> 'ip option) \<Rightarrow> 'w Handler \<Rightarrow> string \<Rightarrow> 'w state \<Rightarrow> error option \<times> 'w state" where
  "handleDomain ParseIP h domain s =
     (case clients (app h) (Provider h) of
        None \<Rightarrow> (Some (Msg (''provider '' @ Provider h @ '' not found'')), s)
      | Some provider \<Rightarrow>
          (let ip = IPOverride h;
               ip = (if ip = [] then CaddyIP (app h) else ip)
           in if ip = []
              then (Some (Msg ''no IP address configured: set either ip_override in handler or caddy_ip in global config''), s)
              else if ParseIP ip = None
              then (Some (Msg (''invalid IP address: '' @ ip)), s)
              else
                (let s = logger_Info ''handling domain''
                           [zap_String ''domain'' domain, zap_String ''ip'' ip,
                            zap_String ''provider'' (Provider h)] s;
                     (found, s) = call_FindRecord provider domain s
                 in case found of
                      Inl err \<Rightarrow> (Some (Wrap ''failed to find existing record: '' err), s)
                    | Inr (Some existing) \<Rightarrow>
                        if IP existing = ip \<and> Enabled existing
                        then (None, logger_Info ''DNS record already exists and is correct''
                                      [zap_String ''domain'' domain] s)
                        else call_UpdateRecord provider domain ip
                               (logger_Info ''updating existing DNS record''
                                  [zap_String ''domain'' domain] s)
                    | Inr None \<Rightarrow>
                        call_CreateRecord provider domain ip
                          (logger_Info ''creating new DNS record''
                             [zap_String ''domain'' domain] s))))"

section \<open>The request adapter: \<open>Handler.ServeHTTP\<close>\<close>

text \<open>
  \<open>ServeHTTP\<close>. The response writer \<open>w\<close>, the request \<open>r\<close> and the next handler are
  the caller's; what the next handler returns is of any type.
\<close>

definition ServeHTTP ::
  "(string \<Rightarrow> 'ip option) \<Rightarrow> 'w Handler \<Rightarrow> 'rw \<Rightarrow> 'm Request_scheme \<Rightarrow>
   ('rw \<Rightarrow> 'm Request_scheme \<Rightarrow> 'w state \<Rightarrow> 'res) \<Rightarrow> 'w state \<Rightarrow> 'res" where
  "ServeHTTP ParseIP h w r next s =
     (let domain = request_domain (Host r);
          (result, s) = handleDomain ParseIP h domain s;
          s = (case result of
                 Some err \<Rightarrow>
                   logger_Error ''failed to handle domain''
                     [zap_String ''domain'' domain, zap_Error err] s
               | None \<Rightarrow> s)
      in next w r s)"

section \<open>The provider registry: \<open>App.createProvider\<close> and \<open>App.Provision\<close>\<close>

text \<open>
  What a function of the registry gives back: its value, the error it returns, or the
  panic of dereferencing a nil \<open>*ProviderConfig\<close>.
\<close>

datatype 'a res = Ok 'a | Err error | Panic string

definition createProvider ::
  "'w constructor \<Rightarrow> 'w App \<Rightarrow> ProviderConfig option \<Rightarrow> 'w DNSService res" where
  "createProvider NewOPNsenseProvider a config =
     (case config of
        None \<Rightarrow> Panic ''invalid memory address or nil pointer dereference''
      | Some c \<Rightarrow>
          if Type c = ''opnsense''
          then (case NewOPNsenseProvider (Hostname c) (APIKey c) (APISecret c)
                       (DNSService c) (Insecure c) (Debug a) of
                  Inl err \<Rightarrow> Err err
                | Inr client \<Rightarrow> Ok client)
          else Err (Msg (''unsupported provider type: '' @ Type c)))"

text \<open>The loop of \<open>Provision\<close> over the entries of \<open>a.Providers\<close>.\<close>

fun Provision_range ::
  "'w constructor \<Rightarrow> (string \<times> ProviderConfig option) list \<Rightarrow> 'w App \<Rightarrow> 'w state \<Rightarrow>
   unit res \<times> 'w App \<times> 'w state" where
  "Provision_range N [] a s = (Ok (), a, s)"
| "Provision_range N ((name, config) # rest) a s =
     (case createProvider N a config of
        Panic m \<Rightarrow> (Panic m, a, s)
      | Err err \<Rightarrow> (Err (Wrap (''failed to create provider '' @ name @ '': '') err), a, s)
      | Ok client \<Rightarrow>
          (let a = a\<lparr>clients := (clients a)(name \<mapsto> client)\<rparr>
           in case config of
                None \<Rightarrow> (Panic ''invalid memory address or nil pointer dereference'', a, s)
              | Some c \<Rightarrow>
                  (let fs = [zap_String ''name'' name, zap_String ''type'' (Type c)];
                       fs = (if Debug a
                             then fs @ [zap_String ''hostname'' (Hostname c),
                                        zap_String ''dns_service'' (DNSService c),
                                        zap_Bool ''insecure'' (Insecure c)]
                             else fs)
                   in Provision_range N rest a
                        (logger_Info ''initialized DNS provider'' fs s))))"

definition Provision ::
  "(string \<Rightarrow> 'ip option) \<Rightarrow> 'w constructor \<Rightarrow> 'w App \<Rightarrow> 'w state \<Rightarrow>
   unit res \<times> 'w App \<times> 'w state" where
  "Provision ParseIP N a s =
     (let a = a\<lparr>clients := Map.empty\<rparr>
      in if CaddyIP a \<noteq> [] \<and> ParseIP (CaddyIP a) = None
         then (Err (Msg (''invalid caddy_ip address: '' @ CaddyIP a)), a, s)
         else Provision_range N (Providers a) a s)"

text \<open>
  \<open>Handler.Provision\<close>. \<open>ctx.App("local_dns")\<close> is the caller's: it gives the
  provisioned app or an error. The handler is bound to the app before the two checks.
\<close>

definition Handler_Provision ::
  "error + 'w App \<Rightarrow> 'w Handler \<Rightarrow> error option \<times> 'w Handler" where
  "Handler_Provision ctx_App h =
     (case ctx_App of
        Inl err \<Rightarrow> (Some (Msg ''local_dns app not configured''), h)
      | Inr a \<Rightarrow>
          (let h = h\<lparr>app := a\<rparr>
           in if Provider h = [] then (Some (Msg ''provider name is required''), h)
              else if clients (app h) (Provider h) = None
              then (Some (Msg (''provider '' @ Provider h @
                      '' not found in global configuration'')), h)
              else (None, h)))"

section \<open>Instances for the examples\<close>

text \<open>
  A parser to put for \<open>ParseIP\<close> in the examples: it accepts the dotted-decimal IPv4
  addresses (four fields of one to three digits, no leading zero, each at most 255) and
  returns their four bytes. \<open>net.ParseIP\<close> accepts these, and IPv6 text besides.
\<close>

fun split_dots :: "string \<Rightarrow> string list" where
  "split_dots [] = [[]]"
| "split_dots (c # cs) =
     (if c = CHR ''.'' then [] # split_dots cs
      else (case split_dots cs of [] \<Rightarrow> [[c]] | f # fs \<Rightarrow> (c # f) # fs))"

fun decimal :: "nat \<Rightarrow> string \<Rightarrow> nat option" where
  "decimal acc [] = Some acc"
| "decimal acc (c # cs) =
     (let d = (of_char c :: nat)
      in if 48 \<le> d \<and> d \<le> 57 then decimal (10 * acc + (d - 48)) cs else None)"

definition octet :: "string \<Rightarrow> nat option" where
  "octet f =
     (if f = [] \<or> 3 < length f \<or> (1 < length f \<and> hd f = CHR ''0'') then None
      else (case decimal 0 f of
              None \<Rightarrow> None
            | Some n \<Rightarrow> if n \<le> 255 then Some n else None))"

definition dotted_quad :: "string \<Rightarrow> nat list option" where
  "dotted_quad s =
     (let bs = map octet (split_dots s)
      in if length bs = 4 \<and> None \<notin> set bs then Some (map the bs) else None)"

text \<open>
  Modelled from the spec: a backend of the absent package \<open>provider\<close>, as section 4.1
  describes the contract. Its world is the table of its records. \<open>FindRecord\<close> reads the
  table; \<open>CreateRecord\<close> adds an enabled record and rejects a duplicate; \<open>UpdateRecord\<close>
  sets the address of an existing record and enables it.
\<close>

definition table_backend :: "(string \<rightharpoonup> Record) DNSService" where
  "table_backend =
     \<lparr>FindRecord = (\<lambda>domain w. (Inr (w domain), w)),
      CreateRecord = (\<lambda>domain ip w.
        case w domain of
          None \<Rightarrow> (None, w(domain \<mapsto> \<lparr>Domain = domain, IP = ip, Enabled = True\<rparr>))
        | Some r \<Rightarrow> (Some (Msg ''record already exists''), w)),
      UpdateRecord = (\<lambda>domain ip w.
        case w domain of
          None \<Rightarrow> (Some (Msg ''record not found''), w)
        | Some r \<Rightarrow> (None, w(domain \<mapsto> r\<lparr>IP := ip, Enabled := True\<rparr>)))\<rparr>"

text \<open>A backend that is out of reach: every operation fails and changes nothing.\<close>

definition failing_backend :: "(string \<rightharpoonup> Record) DNSService" where
  "failing_backend =
     \<lparr>FindRecord = (\<lambda>domain w. (Inl (Msg ''connection refused''), w)),
      CreateRecord = (\<lambda>domain ip w. (Some (Msg ''connection refused''), w)),
      UpdateRecord = (\<lambda>domain ip w. (Some (Msg ''connection refused''), w))\<rparr>"

text \<open>
  Modelled from the spec: a constructor of the absent package \<open>provider\<close>. Construction
  fails on a configuration without a host name and gives the table backend otherwise.
\<close>

definition table_constructor :: "(string \<rightharpoonup> Record) constructor" where
  "table_constructor hostname apiKey apiSecret dnsService insecure debug =
     (if hostname = [] then Inl (Msg ''hostname is required'') else Inr table_backend)"

definition opnsense_config :: "string \<Rightarrow> ProviderConfig" where
  "opnsense_config hostname =
     \<lparr>Type = ''opnsense'', Hostname = hostname, APIKey = ''key'', APISecret = ''secret'',
      DNSService = ''unbound'', Insecure = False\<rparr>"

definition table_app :: "string \<Rightarrow> (string \<rightharpoonup> Record) App" where
  "table_app caddy_ip =
     \<lparr>Providers = [(''opnsense'', Some (opnsense_config ''opnsense.local''))],
      CaddyIP = caddy_ip, Debug = False,
      clients = [''opnsense'' \<mapsto> table_backend, ''offline'' \<mapsto> failing_backend]\<rparr>"

definition table_handler :: "string \<Rightarrow> string \<Rightarrow> string \<Rightarrow> (string \<rightharpoonup> Record) Handler" where
  "table_handler name override caddy_ip =
     \<lparr>Provider = name, IPOverride = override, app = table_app caddy_ip\<rparr>"

definition initial :: "'w \<Rightarrow> 'w state" where
  "initial w = \<lparr>world = w, calls = [], logs = []\<rparr>"

section \<open>Domain extraction\<close>

lemma LastIndex_absent: "c \<notin> set s \<Longrightarrow> LastIndex s c = - 1"
  by (induction s) (auto simp add: Let_def)

lemma LastIndex_present:
  "c \<in> set s \<Longrightarrow>
   0 \<le> LastIndex s c \<and> (\<exists>suf. s = take (nat (LastIndex s c)) s @ c # suf \<and> c \<notin> set suf)"
proof (induction s)
  case Nil
  then show ?case by simp
next
  case (Cons x xs)
  show ?case
  proof (cases "c \<in> set xs")
    case True
    define n where "n = nat (LastIndex xs c)"
    from True Cons.IH obtain suf where
      nonneg: "0 \<le> LastIndex xs c" and
      split: "xs = take n xs @ c # suf" and
      fresh: "c \<notin> set suf"
      unfolding n_def by blast
    from nonneg have idx: "LastIndex (x # xs) c = LastIndex xs c + 1"
      by (simp add: Let_def)
    from nonneg have suc: "nat (LastIndex (x # xs) c) = Suc n"
      unfolding idx n_def by simp
    have "take (Suc n) (x # xs) @ c # suf = x # (take n xs @ c # suf)"
      by simp
    also have "\<dots> = x # xs"
      using split by simp
    finally have "x # xs = take (nat (LastIndex (x # xs) c)) (x # xs) @ c # suf"
      unfolding suc by (rule sym)
    moreover from nonneg have "0 \<le> LastIndex (x # xs) c"
      unfolding idx by simp
    ultimately show ?thesis
      using fresh by blast
  next
    case False
    with Cons.prems have xc: "x = c" by simp
    from False have "LastIndex xs c = - 1" by (rule LastIndex_absent)
    with xc have "LastIndex (x # xs) c = 0" by (simp add: Let_def)
    with xc False show ?thesis by simp
  qed
qed

theorem request_domain_strips_port:
  "(CHR '':'' \<in> set host \<longrightarrow>
      (\<exists>port. host = request_domain host @ CHR '':'' # port \<and> CHR '':'' \<notin> set port))
   \<and> (CHR '':'' \<notin> set host \<longrightarrow> request_domain host = host)
   \<and> request_domain ''service.example.com:8080'' = ''service.example.com''
   \<and> request_domain ''service.example.com'' = ''service.example.com''"
proof (intro conjI impI)
  assume colon: "CHR '':'' \<in> set host"
  have "0 \<le> LastIndex host CHR '':''"
    using LastIndex_present [OF colon] by blast
  then have "request_domain host = take (nat (LastIndex host CHR '':'')) host"
    by (simp add: request_domain_def Let_def)
  then show "\<exists>port. host = request_domain host @ CHR '':'' # port \<and> CHR '':'' \<notin> set port"
    using LastIndex_present [OF colon] by simp
next
  assume "CHR '':'' \<notin> set host"
  then show "request_domain host = host"
    by (simp add: request_domain_def Let_def LastIndex_absent)
next
  show "request_domain ''service.example.com:8080'' = ''service.example.com''"
    by (simp add: request_domain_def Let_def)
next
  show "request_domain ''service.example.com'' = ''service.example.com''"
    by (simp add: request_domain_def Let_def)
qed

theorem request_domain_strips_port_witness:
  "CHR '':'' \<in> set ''svc.local:443''
   \<and> (\<exists>port. ''svc.local:443'' = request_domain ''svc.local:443'' @ CHR '':'' # port
          \<and> CHR '':'' \<notin> set port)
   \<and> CHR '':'' \<notin> set ''localhost''
   \<and> request_domain ''localhost'' = ''localhost''"
proof -
  have colon: "CHR '':'' \<in> set ''svc.local:443''"
    by simp
  have none: "CHR '':'' \<notin> set ''localhost''"
    by simp
  from colon none show ?thesis
    using request_domain_strips_port [of "''svc.local:443''"]
      request_domain_strips_port [of "''localhost''"]
    by blast
qed

section \<open>The engine once the provider and the address are settled\<close>

lemma dotted_quad_examples:
  "dotted_quad ''192.168.1.50'' = Some [192, 168, 1, 50]"
  "dotted_quad ''10.0.0.1'' = Some [10, 0, 0, 1]"
  "dotted_quad ''999.1.1.1'' = None"
  by (simp_all add: dotted_quad_def octet_def Let_def)

lemma table_handler_simps:
  "Provider (table_handler n ov ip) = n"
  "IPOverride (table_handler n ov ip) = ov"
  "CaddyIP (app (table_handler n ov ip)) = ip"
  "clients (app (table_handler n ov ip)) ''opnsense'' = Some table_backend"
  "clients (app (table_handler n ov ip)) ''offline'' = Some failing_backend"
  "clients (app (table_handler n ov ip)) ''ghost'' = None"
  by (simp_all add: table_handler_def table_app_def)

lemma table_backend_simps:
  "FindRecord table_backend d w = (Inr (w d), w)"
  "CreateRecord table_backend d ip w =
     (case w d of
        None \<Rightarrow> (None, w(d \<mapsto> \<lparr>Domain = d, IP = ip, Enabled = True\<rparr>))
      | Some r \<Rightarrow> (Some (Msg ''record already exists''), w))"
  "UpdateRecord table_backend d ip w =
     (case w d of
        None \<Rightarrow> (Some (Msg ''record not found''), w)
      | Some r \<Rightarrow> (None, w(d \<mapsto> r\<lparr>IP := ip, Enabled := True\<rparr>)))"
  by (simp_all add: table_backend_def)

text \<open>
  A handler that came through \<open>Handler.Provision\<close> names a provider of the registry:
  the lookup at the head of \<open>handleDomain\<close> then succeeds.
\<close>

lemma Handler_Provision_resolves:
  "Handler_Provision ctx_App h = (None, h') \<Longrightarrow>
   \<exists>p. clients (app h') (Provider h') = Some p"
  by (auto simp add: Handler_Provision_def Let_def split: sum.splits if_splits)

lemma handleDomain_unresolved:
  "clients (app h) (Provider h) = None \<Longrightarrow>
   handleDomain ParseIP h domain s = (Some (Msg (''provider '' @ Provider h @ '' not found'')), s)"
  by (simp add: handleDomain_def)

lemma handleDomain_query:
  assumes "clients (app h) (Provider h) = Some p"
    and "ip = (if IPOverride h = [] then CaddyIP (app h) else IPOverride h)"
    and "ip \<noteq> []" and "ParseIP ip \<noteq> None"
  shows "handleDomain ParseIP h domain s =
     (case call_FindRecord p domain
             (logger_Info ''handling domain''
                [zap_String ''domain'' domain, zap_String ''ip'' ip,
                 zap_String ''provider'' (Provider h)] s) of
        (Inl err, s1) \<Rightarrow> (Some (Wrap ''failed to find existing record: '' err), s1)
      | (Inr (Some existing), s1) \<Rightarrow>
          if IP existing = ip \<and> Enabled existing
          then (None, logger_Info ''DNS record already exists and is correct''
                        [zap_String ''domain'' domain] s1)
          else call_UpdateRecord p domain ip
                 (logger_Info ''updating existing DNS record''
                    [zap_String ''domain'' domain] s1)
      | (Inr None, s1) \<Rightarrow>
          call_CreateRecord p domain ip
            (logger_Info ''creating new DNS record'' [zap_String ''domain'' domain] s1))"
proof (cases "IPOverride h = []")
  case True
  with assms have "ip = CaddyIP (app h)" "CaddyIP (app h) \<noteq> []"
    "ParseIP (CaddyIP (app h)) \<noteq> None"
    by simp_all
  with True assms(1) show ?thesis
    by (auto simp add: handleDomain_def Let_def split: prod.splits)
next
  case False
  with assms have "ip = IPOverride h" "ParseIP (IPOverride h) \<noteq> None"
    by simp_all
  with False assms(1) show ?thesis
    by (auto simp add: handleDomain_def Let_def split: prod.splits)
qed

lemma handleDomain_success_valid:
  assumes "clients (app h) (Provider h) = Some p"
    and "ip = (if IPOverride h = [] then CaddyIP (app h) else IPOverride h)"
    and "fst (handleDomain ParseIP h domain s) = None"
  shows "ip \<noteq> [] \<and> ParseIP ip \<noteq> None"
  using assms by (auto simp add: handleDomain_def Let_def split: if_splits)

lemma handleDomain_noop:
  assumes "clients (app h) (Provider h) = Some p"
    and "ip = (if IPOverride h = [] then CaddyIP (app h) else IPOverride h)"
    and "ip \<noteq> []" and "ParseIP ip \<noteq> None"
    and "FindRecord p domain (world s) = (Inr (Some r), w')"
    and "IP r = ip" and "Enabled r"
  shows "fst (handleDomain ParseIP h domain s) = None"
    and "calls (snd (handleDomain ParseIP h domain s)) = calls s @ [FindRecordCall domain]"
    and "world (snd (handleDomain ParseIP h domain s)) = w'"
  unfolding handleDomain_query [of h p ip ParseIP domain s, OF assms(1-4)]
  using assms(5-7)
  by (simp_all add: call_FindRecord_def logger_Info_def)

lemma handleDomain_write:
  assumes "clients (app h) (Provider h) = Some p"
    and "ip = (if IPOverride h = [] then CaddyIP (app h) else IPOverride h)"
    and "ip \<noteq> []" and "ParseIP ip \<noteq> None"
    and "FindRecord p domain (world s) = (Inr found, w')"
  shows "found = None \<Longrightarrow>
           fst (handleDomain ParseIP h domain s) = fst (CreateRecord p domain ip w')
         \<and> calls (snd (handleDomain ParseIP h domain s))
             = calls s @ [FindRecordCall domain, CreateRecordCall domain ip]
         \<and> world (snd (handleDomain ParseIP h domain s)) = snd (CreateRecord p domain ip w')"
    and "found = Some r \<Longrightarrow> IP r \<noteq> ip \<or> \<not> Enabled r \<Longrightarrow>
           fst (handleDomain ParseIP h domain s) = fst (UpdateRecord p domain ip w')
         \<and> calls (snd (handleDomain ParseIP h domain s))
             = calls s @ [FindRecordCall domain, UpdateRecordCall domain ip]
         \<and> world (snd (handleDomain ParseIP h domain s)) = snd (UpdateRecord p domain ip w')"
  unfolding handleDomain_query [of h p ip ParseIP domain s, OF assms(1-4)]
  using assms(5)
  by (auto simp add: call_FindRecord_def call_CreateRecord_def call_UpdateRecord_def
      logger_Info_def split: prod.splits)

lemma table_backend_laws:
  "\<forall>d w. snd (FindRecord table_backend d w) = w"
  "\<forall>d a w w'. CreateRecord table_backend d a w = (None, w') \<longrightarrow>
     (\<exists>r. fst (FindRecord table_backend d w') = Inr (Some r) \<and> IP r = a \<and> Enabled r)"
  "\<forall>d a w w'. UpdateRecord table_backend d a w = (None, w') \<longrightarrow>
     (\<exists>r. fst (FindRecord table_backend d w') = Inr (Some r) \<and> IP r = a \<and> Enabled r)"
  by (auto simp add: table_backend_simps split: option.splits)

section \<open>The three-way decision\<close>

text \<open>
  C1. A reconciliation that has resolved its provider and holds a valid desired IP branches
  on what \<open>FindRecord\<close> returns for the domain. Absent record: after the query exactly
  \<open>CreateRecord\<close> of the domain and the desired IP is invoked, and its result is the
  result. Record with the desired IP and enabled: nothing is invoked after the query and
  the reconciliation succeeds. Record with another IP or disabled: after the query exactly
  \<open>UpdateRecord\<close> of the domain and the desired IP is invoked, and its result is the result.
\<close>

theorem handleDomain_three_way:
  assumes "clients (app h) (Provider h) = Some p"
    and "ip = (if IPOverride h = [] then CaddyIP (app h) else IPOverride h)"
    and "ip \<noteq> []" and "ParseIP ip \<noteq> None"
    and "FindRecord p domain (world s) = (Inr found, w')"
  shows "(found = None \<longrightarrow>
            calls (snd (handleDomain ParseIP h domain s))
              = calls s @ [FindRecordCall domain, CreateRecordCall domain ip]
            \<and> fst (handleDomain ParseIP h domain s) = fst (CreateRecord p domain ip w')
            \<and> world (snd (handleDomain ParseIP h domain s)) = snd (CreateRecord p domain ip w'))
       \<and> (\<forall>r. found = Some r \<and> IP r = ip \<and> Enabled r \<longrightarrow>
            calls (snd (handleDomain ParseIP h domain s)) = calls s @ [FindRecordCall domain]
            \<and> fst (handleDomain ParseIP h domain s) = None
            \<and> world (snd (handleDomain ParseIP h domain s)) = w')
       \<and> (\<forall>r. found = Some r \<and> (IP r \<noteq> ip \<or> \<not> Enabled r) \<longrightarrow>
            calls (snd (handleDomain ParseIP h domain s))
              = calls s @ [FindRecordCall domain, UpdateRecordCall domain ip]
            \<and> fst (handleDomain ParseIP h domain s) = fst (UpdateRecord p domain ip w')
            \<and> world (snd (handleDomain ParseIP h domain s)) = snd (UpdateRecord p domain ip w'))"
  unfolding handleDomain_query [of h p ip ParseIP domain s, OF assms(1-4)]
  using assms(5)
  by (auto simp add: Let_def call_FindRecord_def call_CreateRecord_def call_UpdateRecord_def
      logger_Info_def split: prod.splits)

theorem handleDomain_three_way_witness:
  "calls (snd (handleDomain dotted_quad (table_handler ''opnsense'' [] ''192.168.1.50'')
      ''svc.local'' (initial Map.empty)))
     = [FindRecordCall ''svc.local'', CreateRecordCall ''svc.local'' ''192.168.1.50'']
   \<and> calls (snd (handleDomain dotted_quad (table_handler ''opnsense'' [] ''192.168.1.50'')
      ''svc.local''
      (initial [''svc.local'' \<mapsto>
         \<lparr>Domain = ''svc.local'', IP = ''192.168.1.50'', Enabled = True\<rparr>])))
     = [FindRecordCall ''svc.local'']
   \<and> calls (snd (handleDomain dotted_quad (table_handler ''opnsense'' [] ''192.168.1.50'')
      ''svc.local''
      (initial [''svc.local'' \<mapsto>
         \<lparr>Domain = ''svc.local'', IP = ''10.0.0.1'', Enabled = True\<rparr>])))
     = [FindRecordCall ''svc.local'', UpdateRecordCall ''svc.local'' ''192.168.1.50'']"
proof -
  let ?h = "table_handler ''opnsense'' [] ''192.168.1.50''"
  let ?ok = "\<lparr>Domain = ''svc.local'', IP = ''192.168.1.50'', Enabled = True\<rparr>"
  let ?old = "\<lparr>Domain = ''svc.local'', IP = ''10.0.0.1'', Enabled = True\<rparr>"
  have resolved: "clients (app ?h) (Provider ?h) = Some table_backend"
    by (simp add: table_handler_simps)
  have ip: "''192.168.1.50'' = (if IPOverride ?h = [] then CaddyIP (app ?h) else IPOverride ?h)"
    by (simp add: table_handler_simps)
  have nonempty: "''192.168.1.50'' \<noteq> []"
    by simp
  have valid: "dotted_quad ''192.168.1.50'' \<noteq> None"
    by (simp add: dotted_quad_def octet_def Let_def)
  have absent: "FindRecord table_backend ''svc.local'' (world (initial Map.empty))
      = (Inr None, Map.empty)"
    by (simp add: table_backend_simps initial_def)
  have correct: "FindRecord table_backend ''svc.local''
      (world (initial [''svc.local'' \<mapsto> ?ok])) = (Inr (Some ?ok), [''svc.local'' \<mapsto> ?ok])"
    by (simp add: table_backend_simps initial_def)
  have differs: "FindRecord table_backend ''svc.local''
      (world (initial [''svc.local'' \<mapsto> ?old])) = (Inr (Some ?old), [''svc.local'' \<mapsto> ?old])"
    by (simp add: table_backend_simps initial_def)
  have "calls (snd (handleDomain dotted_quad ?h ''svc.local'' (initial Map.empty)))
      = [FindRecordCall ''svc.local'', CreateRecordCall ''svc.local'' ''192.168.1.50'']"
    using handleDomain_three_way [where ParseIP = dotted_quad, OF resolved ip nonempty valid absent]
    by (simp add: initial_def)
  moreover have "calls (snd (handleDomain dotted_quad ?h ''svc.local''
      (initial [''svc.local'' \<mapsto> ?ok]))) = [FindRecordCall ''svc.local'']"
    using handleDomain_three_way [where ParseIP = dotted_quad, OF resolved ip nonempty valid correct]
    by (simp add: initial_def)
  moreover have "calls (snd (handleDomain dotted_quad ?h ''svc.local''
      (initial [''svc.local'' \<mapsto> ?old])))
      = [FindRecordCall ''svc.local'', UpdateRecordCall ''svc.local'' ''192.168.1.50'']"
    using handleDomain_three_way [where ParseIP = dotted_quad, OF resolved ip nonempty valid differs]
    by (simp add: initial_def)
  ultimately show ?thesis
    by simp
qed

section \<open>Which address is reconciled\<close>

text \<open>
  C3. In a reconciliation that has resolved its provider, the desired IP is the handler's
  override when that is not empty and the global \<open>caddy_ip\<close> otherwise. When both are
  empty the reconciliation fails with the "no IP address configured" error and the state
  is untouched, so no provider operation was invoked. Otherwise the desired IP is the one
  the engine validates (the "invalid IP address" error names it), logs, and passes to the
  one write it may issue after the query.
\<close>

theorem handleDomain_ip_precedence:
  assumes "clients (app h) (Provider h) = Some p"
    and "ip = (if IPOverride h \<noteq> [] then IPOverride h else CaddyIP (app h))"
  shows "(ip = [] \<longrightarrow>
            handleDomain ParseIP h domain s =
              (Some (Msg ''no IP address configured: set either ip_override in handler or caddy_ip in global config''), s))
       \<and> (ip \<noteq> [] \<and> ParseIP ip = None \<longrightarrow>
            handleDomain ParseIP h domain s = (Some (Msg (''invalid IP address: '' @ ip)), s))
       \<and> (ip \<noteq> [] \<and> ParseIP ip \<noteq> None \<longrightarrow>
            logs (snd (handleDomain ParseIP h domain s)) ! length (logs s) =
              (InfoLevel, ''handling domain'',
               [zap_String ''domain'' domain, zap_String ''ip'' ip,
                zap_String ''provider'' (Provider h)])
            \<and> (\<exists>ws. calls (snd (handleDomain ParseIP h domain s))
                      = calls s @ FindRecordCall domain # ws
                  \<and> (ws = [] \<or> ws = [CreateRecordCall domain ip]
                      \<or> ws = [UpdateRecordCall domain ip])))"
proof (intro conjI impI)
  assume "ip = []"
  with assms show "handleDomain ParseIP h domain s =
      (Some (Msg ''no IP address configured: set either ip_override in handler or caddy_ip in global config''), s)"
    by (simp add: handleDomain_def Let_def split: if_splits)
next
  assume "ip \<noteq> [] \<and> ParseIP ip = None"
  with assms show "handleDomain ParseIP h domain s
      = (Some (Msg (''invalid IP address: '' @ ip)), s)"
    by (auto simp add: handleDomain_def Let_def split: if_splits)
next
  assume valid: "ip \<noteq> [] \<and> ParseIP ip \<noteq> None"
  from assms(2) have ip: "ip = (if IPOverride h = [] then CaddyIP (app h) else IPOverride h)"
    by simp
  note q = handleDomain_query [of h p ip ParseIP domain s, OF assms(1) ip]
  from valid show "logs (snd (handleDomain ParseIP h domain s)) ! length (logs s) =
      (InfoLevel, ''handling domain'',
       [zap_String ''domain'' domain, zap_String ''ip'' ip,
        zap_String ''provider'' (Provider h)])"
    unfolding q [OF conjunct1 [OF valid] conjunct2 [OF valid]]
    by (auto simp add: call_FindRecord_def call_CreateRecord_def call_UpdateRecord_def
        logger_Info_def nth_append split: prod.splits sum.splits option.splits)
  from valid show "\<exists>ws. calls (snd (handleDomain ParseIP h domain s))
        = calls s @ FindRecordCall domain # ws
      \<and> (ws = [] \<or> ws = [CreateRecordCall domain ip] \<or> ws = [UpdateRecordCall domain ip])"
    unfolding q [OF conjunct1 [OF valid] conjunct2 [OF valid]]
    by (auto simp add: call_FindRecord_def call_CreateRecord_def call_UpdateRecord_def
        logger_Info_def split: prod.splits sum.splits option.splits)
qed

theorem handleDomain_ip_precedence_witness:
  "handleDomain dotted_quad (table_handler ''opnsense'' [] []) ''svc.local'' (initial Map.empty)
     = (Some (Msg ''no IP address configured: set either ip_override in handler or caddy_ip in global config''),
        initial Map.empty)
   \<and> logs (snd (handleDomain dotted_quad (table_handler ''opnsense'' ''10.0.0.1'' ''192.168.1.50'')
        ''svc.local'' (initial Map.empty))) ! 0
     = (InfoLevel, ''handling domain'',
        [zap_String ''domain'' ''svc.local'', zap_String ''ip'' ''10.0.0.1'',
         zap_String ''provider'' ''opnsense''])
   \<and> logs (snd (handleDomain dotted_quad (table_handler ''opnsense'' [] ''192.168.1.50'')
        ''svc.local'' (initial Map.empty))) ! 0
     = (InfoLevel, ''handling domain'',
        [zap_String ''domain'' ''svc.local'', zap_String ''ip'' ''192.168.1.50'',
         zap_String ''provider'' ''opnsense''])"
proof -
  let ?none = "table_handler ''opnsense'' [] []"
  let ?both = "table_handler ''opnsense'' ''10.0.0.1'' ''192.168.1.50''"
  let ?default = "table_handler ''opnsense'' [] ''192.168.1.50''"
  have r0: "clients (app ?none) (Provider ?none) = Some table_backend"
    and r1: "clients (app ?both) (Provider ?both) = Some table_backend"
    and r2: "clients (app ?default) (Provider ?default) = Some table_backend"
    by (simp_all add: table_handler_simps)
  have i0: "[] = (if IPOverride ?none \<noteq> [] then IPOverride ?none else CaddyIP (app ?none))"
    and i1: "''10.0.0.1'' = (if IPOverride ?both \<noteq> [] then IPOverride ?both
                              else CaddyIP (app ?both))"
    and i2: "''192.168.1.50'' = (if IPOverride ?default \<noteq> [] then IPOverride ?default
                                  else CaddyIP (app ?default))"
    by (simp_all add: table_handler_simps)
  have v1: "''10.0.0.1'' \<noteq> [] \<and> dotted_quad ''10.0.0.1'' \<noteq> None"
    and v2: "''192.168.1.50'' \<noteq> [] \<and> dotted_quad ''192.168.1.50'' \<noteq> None"
    by (simp_all add: dotted_quad_examples)
  have "handleDomain dotted_quad ?none ''svc.local'' (initial Map.empty)
     = (Some (Msg ''no IP address configured: set either ip_override in handler or caddy_ip in global config''),
        initial Map.empty)"
    using handleDomain_ip_precedence [where ParseIP = dotted_quad, OF r0 i0] by simp
  moreover have "logs (snd (handleDomain dotted_quad ?both ''svc.local'' (initial Map.empty))) ! 0
     = (InfoLevel, ''handling domain'',
        [zap_String ''domain'' ''svc.local'', zap_String ''ip'' ''10.0.0.1'',
         zap_String ''provider'' ''opnsense''])"
    using handleDomain_ip_precedence [where ParseIP = dotted_quad and s = "initial Map.empty",
        OF r1 i1] v1
    by (simp add: initial_def table_handler_simps)
  moreover have "logs (snd (handleDomain dotted_quad ?default ''svc.local''
        (initial Map.empty))) ! 0
     = (InfoLevel, ''handling domain'',
        [zap_String ''domain'' ''svc.local'', zap_String ''ip'' ''192.168.1.50'',
         zap_String ''provider'' ''opnsense''])"
    using handleDomain_ip_precedence [where ParseIP = dotted_quad and s = "initial Map.empty",
        OF r2 i2] v2
    by (simp add: initial_def table_handler_simps)
  ultimately show ?thesis
    by simp
qed

text \<open>
  C4. A reconciliation whose desired IP is not empty and does not parse fails with the
  "invalid IP address" error, and neither the recorded provider calls nor the outside world
  change: no \<open>FindRecord\<close>, \<open>CreateRecord\<close> or \<open>UpdateRecord\<close> is invoked. The
  override \<open>999.1.1.1\<close> of the spec's scenario is such an address.
\<close>

theorem handleDomain_invalid_ip:
  assumes "clients (app h) (Provider h) = Some p"
    and "ip = (if IPOverride h = [] then CaddyIP (app h) else IPOverride h)"
    and "ip \<noteq> []" and "ParseIP ip = None"
  shows "fst (handleDomain ParseIP h domain s) = Some (Msg (''invalid IP address: '' @ ip))
       \<and> calls (snd (handleDomain ParseIP h domain s)) = calls s
       \<and> world (snd (handleDomain ParseIP h domain s)) = world s"
  using assms by (auto simp add: handleDomain_def Let_def split: if_splits)

theorem handleDomain_invalid_ip_witness:
  "dotted_quad ''999.1.1.1'' = None
   \<and> handleDomain dotted_quad (table_handler ''opnsense'' ''999.1.1.1'' ''192.168.1.50'')
        ''svc.local'' (initial Map.empty)
     = (Some (Msg ''invalid IP address: 999.1.1.1''), initial Map.empty)"
proof -
  let ?h = "table_handler ''opnsense'' ''999.1.1.1'' ''192.168.1.50''"
  have resolved: "clients (app ?h) (Provider ?h) = Some table_backend"
    by (simp add: table_handler_simps)
  have ip: "''999.1.1.1'' = (if IPOverride ?h = [] then CaddyIP (app ?h) else IPOverride ?h)"
    by (simp add: table_handler_simps)
  have nonempty: "''999.1.1.1'' \<noteq> []"
    by simp
  have invalid: "dotted_quad ''999.1.1.1'' = None"
    by (simp add: dotted_quad_examples)
  have "fst (handleDomain dotted_quad ?h ''svc.local'' (initial Map.empty))
          = Some (Msg ''invalid IP address: 999.1.1.1'')
      \<and> calls (snd (handleDomain dotted_quad ?h ''svc.local'' (initial Map.empty))) = []
      \<and> world (snd (handleDomain dotted_quad ?h ''svc.local'' (initial Map.empty))) = Map.empty"
    using handleDomain_invalid_ip [where ParseIP = dotted_quad and s = "initial Map.empty"
        and domain = "''svc.local''", OF resolved ip nonempty invalid]
    by (simp add: initial_def)
  moreover have "logs (snd (handleDomain dotted_quad ?h ''svc.local'' (initial Map.empty))) = []"
    using invalid by (simp add: handleDomain_def table_handler_simps Let_def initial_def)
  ultimately show ?thesis
    using invalid by (cases "handleDomain dotted_quad ?h ''svc.local'' (initial Map.empty)")
      (simp add: initial_def)
qed

section \<open>A failing query\<close>

text \<open>
  C5. When \<open>FindRecord\<close> of the domain fails, the reconciliation returns that error
  (wrapped as "failed to find existing record"), the query is the only provider method
  invoked, no write is among the calls, and the outside world is the one the failed query
  left.
\<close>

theorem handleDomain_query_error:
  assumes "clients (app h) (Provider h) = Some p"
    and "ip = (if IPOverride h = [] then CaddyIP (app h) else IPOverride h)"
    and "ip \<noteq> []" and "ParseIP ip \<noteq> None"
    and "FindRecord p domain (world s) = (Inl err, w')"
  shows "fst (handleDomain ParseIP h domain s)
           = Some (Wrap ''failed to find existing record: '' err)
       \<and> calls (snd (handleDomain ParseIP h domain s)) = calls s @ [FindRecordCall domain]
       \<and> writes (calls (snd (handleDomain ParseIP h domain s))) = writes (calls s)
       \<and> world (snd (handleDomain ParseIP h domain s)) = w'"
  unfolding handleDomain_query [of h p ip ParseIP domain s, OF assms(1-4)]
  using assms(5)
  by (simp add: call_FindRecord_def logger_Info_def writes_def)

theorem handleDomain_query_error_witness:
  "handleDomain dotted_quad (table_handler ''offline'' [] ''192.168.1.50'') ''svc.local''
      (initial Map.empty)
     = (Some (Wrap ''failed to find existing record: '' (Msg ''connection refused'')),
        \<lparr>world = Map.empty, calls = [FindRecordCall ''svc.local''],
         logs = [(InfoLevel, ''handling domain'',
                  [zap_String ''domain'' ''svc.local'', zap_String ''ip'' ''192.168.1.50'',
                   zap_String ''provider'' ''offline''])]\<rparr>)"
proof -
  let ?h = "table_handler ''offline'' [] ''192.168.1.50''"
  have resolved: "clients (app ?h) (Provider ?h) = Some failing_backend"
    by (simp add: table_handler_simps)
  have ip: "''192.168.1.50'' = (if IPOverride ?h = [] then CaddyIP (app ?h) else IPOverride ?h)"
    by (simp add: table_handler_simps)
  have nonempty: "''192.168.1.50'' \<noteq> []"
    by simp
  have valid: "dotted_quad ''192.168.1.50'' \<noteq> None"
    by (simp add: dotted_quad_examples)
  have fails: "FindRecord failing_backend ''svc.local'' (world (initial Map.empty))
      = (Inl (Msg ''connection refused''), Map.empty)"
    by (simp add: failing_backend_def initial_def)
  have "fst (handleDomain dotted_quad ?h ''svc.local'' (initial Map.empty))
          = Some (Wrap ''failed to find existing record: '' (Msg ''connection refused''))
      \<and> calls (snd (handleDomain dotted_quad ?h ''svc.local'' (initial Map.empty)))
          = [FindRecordCall ''svc.local'']
      \<and> world (snd (handleDomain dotted_quad ?h ''svc.local'' (initial Map.empty))) = Map.empty"
    using handleDomain_query_error [where ParseIP = dotted_quad,
        OF resolved ip nonempty valid fails]
    by (simp add: initial_def)
  moreover have "logs (snd (handleDomain dotted_quad ?h ''svc.local'' (initial Map.empty)))
      = [(InfoLevel, ''handling domain'',
          [zap_String ''domain'' ''svc.local'', zap_String ''ip'' ''192.168.1.50'',
           zap_String ''provider'' ''offline''])]"
    unfolding handleDomain_query [where ParseIP = dotted_quad, OF resolved ip nonempty valid]
    by (simp add: call_FindRecord_def failing_backend_def logger_Info_def initial_def
        table_handler_simps)
  ultimately show ?thesis
    by (cases "handleDomain dotted_quad ?h ''svc.local'' (initial Map.empty)") simp
qed

section \<open>Reconciling twice\<close>

text \<open>
  C2, as the code has it. The backend is one that honours its writes: a query leaves the
  world as it is, and after a \<open>CreateRecord\<close> or an \<open>UpdateRecord\<close> that succeeded a
  query of that domain returns an enabled record with the address written. Then a
  reconciliation that succeeds has issued, after its query, at most one write: none when
  the record was already correct, and otherwise exactly one \<open>CreateRecord\<close> or
  \<open>UpdateRecord\<close> of the domain and the desired IP. A second reconciliation of the same
  domain and desired IP succeeds, invokes the query and no write, and leaves the world as
  the first one left it.
\<close>

theorem handleDomain_idempotent:
  assumes resolved: "clients (app h) (Provider h) = Some p"
    and ip: "ip = (if IPOverride h = [] then CaddyIP (app h) else IPOverride h)"
    and find_law: "\<forall>d w. snd (FindRecord p d w) = w"
    and create_law: "\<forall>d a w w'. CreateRecord p d a w = (None, w') \<longrightarrow>
        (\<exists>r. fst (FindRecord p d w') = Inr (Some r) \<and> IP r = a \<and> Enabled r)"
    and update_law: "\<forall>d a w w'. UpdateRecord p d a w = (None, w') \<longrightarrow>
        (\<exists>r. fst (FindRecord p d w') = Inr (Some r) \<and> IP r = a \<and> Enabled r)"
    and first: "handleDomain ParseIP h domain s = (None, s1)"
  shows "(\<exists>ws. calls s1 = calls s @ FindRecordCall domain # ws
            \<and> (ws = [] \<or> ws = [CreateRecordCall domain ip] \<or> ws = [UpdateRecordCall domain ip])
            \<and> (ws = [] \<longleftrightarrow>
                 (\<exists>r. fst (FindRecord p domain (world s)) = Inr (Some r)
                      \<and> IP r = ip \<and> Enabled r)))
       \<and> fst (handleDomain ParseIP h domain s1) = None
       \<and> calls (snd (handleDomain ParseIP h domain s1)) = calls s1 @ [FindRecordCall domain]
       \<and> world (snd (handleDomain ParseIP h domain s1)) = world s1"
proof -
  from first have ok: "fst (handleDomain ParseIP h domain s) = None"
    and s1: "snd (handleDomain ParseIP h domain s) = s1"
    by simp_all
  from handleDomain_success_valid [OF resolved ip ok]
  have nonempty: "ip \<noteq> []" and valid: "ParseIP ip \<noteq> None"
    by simp_all
  obtain found where query: "FindRecord p domain (world s) = (found, world s)"
    using find_law by (metis prod.collapse)
  let ?settled = "\<exists>r. FindRecord p domain (world s1) = (Inr (Some r), world s1)
      \<and> IP r = ip \<and> Enabled r"
  let ?trace = "\<exists>ws. calls s1 = calls s @ FindRecordCall domain # ws
      \<and> (ws = [] \<or> ws = [CreateRecordCall domain ip] \<or> ws = [UpdateRecordCall domain ip])
      \<and> (ws = [] \<longleftrightarrow>
           (\<exists>r. fst (FindRecord p domain (world s)) = Inr (Some r) \<and> IP r = ip \<and> Enabled r))"
  have both: "?settled \<and> ?trace"
  proof (cases found)
    case (Inl err)
    with query have "fst (handleDomain ParseIP h domain s)
        = Some (Wrap ''failed to find existing record: '' err)"
      unfolding handleDomain_query [of h p ip ParseIP domain s, OF resolved ip nonempty valid]
      by (simp add: call_FindRecord_def logger_Info_def)
    with ok show ?thesis
      by simp
  next
    case (Inr rec)
    with query have q: "FindRecord p domain (world s) = (Inr rec, world s)"
      by simp
    show ?thesis
    proof (cases rec)
      case None
      from handleDomain_write(1) [where ParseIP = ParseIP,
          OF resolved ip nonempty valid q None] ok s1
      have created: "fst (CreateRecord p domain ip (world s)) = None"
        and c: "calls s1 = calls s @ [FindRecordCall domain, CreateRecordCall domain ip]"
        and w: "world s1 = snd (CreateRecord p domain ip (world s))"
        by simp_all
      from created w have "CreateRecord p domain ip (world s) = (None, world s1)"
        by (metis prod.collapse)
      with create_law obtain r where
        "fst (FindRecord p domain (world s1)) = Inr (Some r)" "IP r = ip" "Enabled r"
        by blast
      with find_law have "\<exists>r. FindRecord p domain (world s1) = (Inr (Some r), world s1)
          \<and> IP r = ip \<and> Enabled r"
        by (metis prod.collapse)
      with c q None show ?thesis
        by simp
    next
      case (Some r)
      show ?thesis
      proof (cases "IP r = ip \<and> Enabled r")
        case True
        with handleDomain_noop [where ParseIP = ParseIP,
            OF resolved ip nonempty valid q [unfolded Some]] s1
        have "calls s1 = calls s @ [FindRecordCall domain]" "world s1 = world s"
          by simp_all
        with q Some True show ?thesis
          by simp
      next
        case False
        then have bad: "IP r \<noteq> ip \<or> \<not> Enabled r"
          by blast
        from handleDomain_write(2) [where ParseIP = ParseIP,
            OF resolved ip nonempty valid q Some bad] ok s1
        have updated: "fst (UpdateRecord p domain ip (world s)) = None"
          and c: "calls s1 = calls s @ [FindRecordCall domain, UpdateRecordCall domain ip]"
          and w: "world s1 = snd (UpdateRecord p domain ip (world s))"
          by simp_all
        from updated w have "UpdateRecord p domain ip (world s) = (None, world s1)"
          by (metis prod.collapse)
        with update_law obtain r' where
          "fst (FindRecord p domain (world s1)) = Inr (Some r')" "IP r' = ip" "Enabled r'"
          by blast
        with find_law have "\<exists>r. FindRecord p domain (world s1) = (Inr (Some r), world s1)
            \<and> IP r = ip \<and> Enabled r"
          by (metis prod.collapse)
        with c q Some False show ?thesis
          by auto
      qed
    qed
  qed
  then obtain r where
    again: "FindRecord p domain (world s1) = (Inr (Some r), world s1)"
    and same: "IP r = ip" and enabled: "Enabled r"
    by blast
  from handleDomain_noop [where ParseIP = ParseIP,
      OF resolved ip nonempty valid again same enabled] both
  show ?thesis
    by simp
qed

theorem handleDomain_idempotent_witness:
  "handleDomain dotted_quad (table_handler ''opnsense'' [] ''192.168.1.50'') ''svc.local''
      (initial Map.empty)
     = (None,
        \<lparr>world = [''svc.local'' \<mapsto>
                    \<lparr>Domain = ''svc.local'', IP = ''192.168.1.50'', Enabled = True\<rparr>],
         calls = [FindRecordCall ''svc.local'', CreateRecordCall ''svc.local'' ''192.168.1.50''],
         logs = [(InfoLevel, ''handling domain'',
                   [zap_String ''domain'' ''svc.local'', zap_String ''ip'' ''192.168.1.50'',
                    zap_String ''provider'' ''opnsense'']),
                 (InfoLevel, ''creating new DNS record'',
                   [zap_String ''domain'' ''svc.local''])]\<rparr>)
   \<and> calls (snd (handleDomain dotted_quad (table_handler ''opnsense'' [] ''192.168.1.50'')
        ''svc.local''
        \<lparr>world = [''svc.local'' \<mapsto>
                    \<lparr>Domain = ''svc.local'', IP = ''192.168.1.50'', Enabled = True\<rparr>],
         calls = [FindRecordCall ''svc.local'', CreateRecordCall ''svc.local'' ''192.168.1.50''],
         logs = [(InfoLevel, ''handling domain'',
                   [zap_String ''domain'' ''svc.local'', zap_String ''ip'' ''192.168.1.50'',
                    zap_String ''provider'' ''opnsense'']),
                 (InfoLevel, ''creating new DNS record'',
                   [zap_String ''domain'' ''svc.local''])]\<rparr>))
     = [FindRecordCall ''svc.local'', CreateRecordCall ''svc.local'' ''192.168.1.50'',
        FindRecordCall ''svc.local'']"
proof -
  let ?h = "table_handler ''opnsense'' [] ''192.168.1.50''"
  let ?s1 = "\<lparr>world = [''svc.local'' \<mapsto>
                    \<lparr>Domain = ''svc.local'', IP = ''192.168.1.50'', Enabled = True\<rparr>],
         calls = [FindRecordCall ''svc.local'', CreateRecordCall ''svc.local'' ''192.168.1.50''],
         logs = [(InfoLevel, ''handling domain'',
                   [zap_String ''domain'' ''svc.local'', zap_String ''ip'' ''192.168.1.50'',
                    zap_String ''provider'' ''opnsense'']),
                 (InfoLevel, ''creating new DNS record'',
                   [zap_String ''domain'' ''svc.local''])]\<rparr>"
  have resolved: "clients (app ?h) (Provider ?h) = Some table_backend"
    by (simp add: table_handler_simps)
  have ip: "''192.168.1.50'' = (if IPOverride ?h = [] then CaddyIP (app ?h) else IPOverride ?h)"
    by (simp add: table_handler_simps)
  have nonempty: "''192.168.1.50'' \<noteq> []"
    by simp
  have valid: "dotted_quad ''192.168.1.50'' \<noteq> None"
    by (simp add: dotted_quad_examples)
  have first: "handleDomain dotted_quad ?h ''svc.local'' (initial Map.empty) = (None, ?s1)"
    unfolding handleDomain_query [where ParseIP = dotted_quad, OF resolved ip nonempty valid]
    by (simp add: call_FindRecord_def call_CreateRecord_def table_backend_simps logger_Info_def
        initial_def table_handler_simps)
  from handleDomain_idempotent [where ParseIP = dotted_quad,
      OF resolved ip table_backend_laws first]
  have "calls (snd (handleDomain dotted_quad ?h ''svc.local'' ?s1))
      = calls ?s1 @ [FindRecordCall ''svc.local'']"
    by blast
  with first show ?thesis
    by simp
qed

text \<open>
  C2 as it is worded asks for exactly one write on the first call. The first
  reconciliation does not always write: against a table that already holds the
  enabled record \<open>svc.local \<mapsto> 192.168.1.50\<close>, the first reconciliation of that
  domain and address succeeds with no write, not with exactly one.
\<close>

theorem handleDomain_first_call_without_write:
  "fst (handleDomain dotted_quad (table_handler ''opnsense'' [] ''192.168.1.50'') ''svc.local''
      (initial [''svc.local'' \<mapsto>
         \<lparr>Domain = ''svc.local'', IP = ''192.168.1.50'', Enabled = True\<rparr>])) = None
   \<and> writes (calls (snd (handleDomain dotted_quad
        (table_handler ''opnsense'' [] ''192.168.1.50'') ''svc.local''
        (initial [''svc.local'' \<mapsto>
           \<lparr>Domain = ''svc.local'', IP = ''192.168.1.50'', Enabled = True\<rparr>])))) = []
   \<and> length (writes (calls (snd (handleDomain dotted_quad
        (table_handler ''opnsense'' [] ''192.168.1.50'') ''svc.local''
        (initial [''svc.local'' \<mapsto>
           \<lparr>Domain = ''svc.local'', IP = ''192.168.1.50'', Enabled = True\<rparr>]))))) \<noteq> 1"
proof -
  let ?h = "table_handler ''opnsense'' [] ''192.168.1.50''"
  let ?ok = "\<lparr>Domain = ''svc.local'', IP = ''192.168.1.50'', Enabled = True\<rparr>"
  have resolved: "clients (app ?h) (Provider ?h) = Some table_backend"
    by (simp add: table_handler_simps)
  have ip: "''192.168.1.50'' = (if IPOverride ?h = [] then CaddyIP (app ?h) else IPOverride ?h)"
    by (simp add: table_handler_simps)
  have nonempty: "''192.168.1.50'' \<noteq> []"
    by simp
  have valid: "dotted_quad ''192.168.1.50'' \<noteq> None"
    by (simp add: dotted_quad_examples)
  have correct: "FindRecord table_backend ''svc.local''
      (world (initial [''svc.local'' \<mapsto> ?ok])) = (Inr (Some ?ok), [''svc.local'' \<mapsto> ?ok])"
    by (simp add: table_backend_simps initial_def)
  have same: "IP ?ok = ''192.168.1.50''" and enabled: "Enabled ?ok"
    by simp_all
  note noop = handleDomain_noop [where ParseIP = dotted_quad,
      OF resolved ip nonempty valid correct same enabled]
  from noop(1) noop(2) show ?thesis
    by (simp add: writes_def initial_def)
qed

section \<open>The request goes on\<close>

text \<open>
  C7. Whatever the reconciliation returns, \<open>ServeHTTP\<close> returns what the next handler
  returns on the writer and the request it was given. The state the next handler starts
  from has the world and the provider calls of the reconciliation, and its log with one
  more entry, the error, exactly when the reconciliation failed: the error is logged and
  is not the result.
\<close>

theorem ServeHTTP_always_forwards:
  "\<exists>s'. ServeHTTP ParseIP h w r next s = next w r s'
     \<and> world s' = world (snd (handleDomain ParseIP h (request_domain (Host r)) s))
     \<and> calls s' = calls (snd (handleDomain ParseIP h (request_domain (Host r)) s))
     \<and> logs s' =
         logs (snd (handleDomain ParseIP h (request_domain (Host r)) s)) @
         (case fst (handleDomain ParseIP h (request_domain (Host r)) s) of
            None \<Rightarrow> []
          | Some err \<Rightarrow>
              [(ErrorLevel, ''failed to handle domain'',
                [zap_String ''domain'' (request_domain (Host r)), zap_Error err])])"
  by (cases "handleDomain ParseIP h (request_domain (Host r)) s")
    (auto simp add: ServeHTTP_def Let_def logger_Error_def split: option.splits)

theorem ServeHTTP_always_forwards_witness:
  "ServeHTTP dotted_quad (table_handler ''ghost'' [] ''192.168.1.50'') ''writer''
      \<lparr>Host = ''svc.local:443''\<rparr> (\<lambda>w r s. (w, Host r, calls s, logs s)) (initial Map.empty)
     = (''writer'', ''svc.local:443'', [],
        [(ErrorLevel, ''failed to handle domain'',
          [zap_String ''domain'' ''svc.local'',
           zap_Error (Msg ''provider ghost not found'')])])"
proof -
  let ?h = "table_handler ''ghost'' [] ''192.168.1.50''"
  let ?next = "\<lambda>(w :: string) (r :: Request) (s :: (string \<rightharpoonup> Record) state).
      (w, Host r, calls s, logs s)"
  have domain: "request_domain (Host \<lparr>Host = ''svc.local:443''\<rparr>) = ''svc.local''"
    by (simp add: request_domain_def Let_def)
  have ghost: "handleDomain dotted_quad ?h ''svc.local'' (initial Map.empty)
      = (Some (Msg ''provider ghost not found''), initial Map.empty)"
    using handleDomain_unresolved [of ?h dotted_quad "''svc.local''" "initial Map.empty"]
    by (simp add: table_handler_simps)
  from ServeHTTP_always_forwards [of dotted_quad ?h "''writer''" "\<lparr>Host = ''svc.local:443''\<rparr>"
      ?next "initial Map.empty"]
  obtain s' where "ServeHTTP dotted_quad ?h ''writer'' \<lparr>Host = ''svc.local:443''\<rparr> ?next
        (initial Map.empty) = ?next ''writer'' \<lparr>Host = ''svc.local:443''\<rparr> s'"
    and "calls s' = []"
    and "logs s' = [(ErrorLevel, ''failed to handle domain'',
          [zap_String ''domain'' ''svc.local'', zap_Error (Msg ''provider ghost not found'')])]"
    unfolding domain ghost by (auto simp add: initial_def)
  then show ?thesis
    by simp
qed

section \<open>Provisioning the registry\<close>

lemma createProvider_Debug:
  "Debug a = Debug a' \<Longrightarrow> createProvider N a config = createProvider N a' config"
  by (cases config) (simp_all add: createProvider_def)

lemma createProvider_Panic:
  "createProvider N a config = Panic m \<Longrightarrow> config = None"
  by (auto simp add: createProvider_def split: option.splits if_splits sum.splits)

lemma createProvider_Ok:
  "createProvider N a config = Ok client \<Longrightarrow> \<exists>c. config = Some c"
  by (auto simp add: createProvider_def split: option.splits)

lemma Provision_range_outcome:
  "(fst (Provision_range N ps a s) = Ok ()
      \<and> (\<forall>(n, c) \<in> set ps. \<exists>client. createProvider N a c = Ok client))
   \<or> (\<exists>n c e. (n, c) \<in> set ps \<and> createProvider N a c = Err e
        \<and> fst (Provision_range N ps a s)
            = Err (Wrap (''failed to create provider '' @ n @ '': '') e))
   \<or> (\<exists>n m. (n, None) \<in> set ps \<and> fst (Provision_range N ps a s) = Panic m)"
proof (induction ps arbitrary: a s)
  case Nil
  show ?case by simp
next
  case (Cons entry ps)
  obtain name config where entry: "entry = (name, config)"
    by (cases entry)
  show ?case
  proof (cases "createProvider N a config")
    case (Panic m)
    then have "config = None"
      by (rule createProvider_Panic)
    with Panic entry show ?thesis
      by auto
  next
    case (Err e)
    with entry show ?thesis
      by auto
  next
    case (Ok client)
    then obtain c where c: "config = Some c"
      using createProvider_Ok by blast
    define a' where "a' = a\<lparr>clients := (clients a)(name \<mapsto> client)\<rparr>"
    define fs where "fs = (let fs = [zap_String ''name'' name, zap_String ''type'' (Type c)]
       in if Debug a' then fs @ [zap_String ''hostname'' (Hostname c),
            zap_String ''dns_service'' (DNSService c), zap_Bool ''insecure'' (Insecure c)]
          else fs)"
    have step: "Provision_range N (entry # ps) a s
        = Provision_range N ps a' (logger_Info ''initialized DNS provider'' fs s)"
      using Ok c entry by (simp add: a'_def fs_def Let_def)
    have same: "createProvider N a' x = createProvider N a x" for x
      by (rule createProvider_Debug) (simp add: a'_def)
    from Cons.IH [of a' "logger_Info ''initialized DNS provider'' fs s"]
    show ?thesis
      unfolding step same using Ok entry by auto
  qed
qed

lemma Provision_range_clients:
  "fst (Provision_range N ps a s) = Ok () \<Longrightarrow>
   dom (clients (fst (snd (Provision_range N ps a s)))) = dom (clients a) \<union> fst ` set ps"
proof (induction ps arbitrary: a s)
  case Nil
  show ?case by simp
next
  case (Cons entry ps)
  obtain name config where entry: "entry = (name, config)"
    by (cases entry)
  show ?case
  proof (cases "createProvider N a config")
    case (Panic m)
    with Cons.prems entry show ?thesis by simp
  next
    case (Err e)
    with Cons.prems entry show ?thesis by simp
  next
    case (Ok client)
    then obtain c where c: "config = Some c"
      using createProvider_Ok by blast
    define a' where "a' = a\<lparr>clients := (clients a)(name \<mapsto> client)\<rparr>"
    define fs where "fs = (let fs = [zap_String ''name'' name, zap_String ''type'' (Type c)]
       in if Debug a' then fs @ [zap_String ''hostname'' (Hostname c),
            zap_String ''dns_service'' (DNSService c), zap_Bool ''insecure'' (Insecure c)]
          else fs)"
    have step: "Provision_range N (entry # ps) a s
        = Provision_range N ps a' (logger_Info ''initialized DNS provider'' fs s)"
      using Ok c entry by (simp add: a'_def fs_def Let_def)
    from Cons.prems have "fst (Provision_range N ps a'
        (logger_Info ''initialized DNS provider'' fs s)) = Ok ()"
      unfolding step .
    from Cons.IH [OF this] show ?thesis
      unfolding step by (auto simp add: a'_def entry)
  qed
qed

lemma Provision_unfold:
  "Provision ParseIP N a s =
     (if CaddyIP a \<noteq> [] \<and> ParseIP (CaddyIP a) = None
      then (Err (Msg (''invalid caddy_ip address: '' @ CaddyIP a)), a\<lparr>clients := Map.empty\<rparr>, s)
      else Provision_range N (Providers a) (a\<lparr>clients := Map.empty\<rparr>) s)"
  by (simp add: Provision_def Let_def)

lemma Provision_not_Ok:
  assumes "(n, c) \<in> set (Providers a)" and "\<forall>client. createProvider N a c \<noteq> Ok client"
  shows "fst (Provision ParseIP N a s) \<noteq> Ok ()"
proof (cases "CaddyIP a \<noteq> [] \<and> ParseIP (CaddyIP a) = None")
  case True
  then show ?thesis
    by (simp add: Provision_unfold)
next
  case False
  have same: "createProvider N (a\<lparr>clients := Map.empty\<rparr>) x = createProvider N a x" for x
    by (rule createProvider_Debug) simp
  from Provision_range_outcome [of N "Providers a" "a\<lparr>clients := Map.empty\<rparr>" s] assms False
  show ?thesis
    unfolding same by (auto simp add: Provision_unfold)
qed

text \<open>
  C6. Provisioning fails as a whole. When the global \<open>caddy_ip\<close> is not empty and does
  not parse, \<open>Provision\<close> returns the "invalid caddy_ip address" error. Otherwise, when
  the construction of some configured provider fails, \<open>Provision\<close> returns the error of
  a provider whose construction fails, wrapped with that provider's name (or panics, which
  only a nil configuration among the entries can cause). When \<open>Provision\<close> succeeds,
  every configured name has its client: no partial set comes up.
\<close>

theorem Provision_fail_fast:
  "(CaddyIP a \<noteq> [] \<and> ParseIP (CaddyIP a) = None \<longrightarrow>
      fst (Provision ParseIP N a s) = Err (Msg (''invalid caddy_ip address: '' @ CaddyIP a)))
   \<and> ((CaddyIP a = [] \<or> ParseIP (CaddyIP a) \<noteq> None)
        \<and> (\<exists>(n, c) \<in> set (Providers a). \<forall>client. createProvider N a c \<noteq> Ok client) \<longrightarrow>
      (\<exists>n c e. (n, c) \<in> set (Providers a) \<and> createProvider N a c = Err e
          \<and> fst (Provision ParseIP N a s)
              = Err (Wrap (''failed to create provider '' @ n @ '': '') e))
      \<or> (\<exists>n m. (n, None) \<in> set (Providers a) \<and> fst (Provision ParseIP N a s) = Panic m))
   \<and> (fst (Provision ParseIP N a s) = Ok () \<longrightarrow>
      dom (clients (fst (snd (Provision ParseIP N a s)))) = fst ` set (Providers a))"
proof (intro conjI impI)
  assume "CaddyIP a \<noteq> [] \<and> ParseIP (CaddyIP a) = None"
  then show "fst (Provision ParseIP N a s)
      = Err (Msg (''invalid caddy_ip address: '' @ CaddyIP a))"
    by (simp add: Provision_unfold)
next
  assume fails: "(CaddyIP a = [] \<or> ParseIP (CaddyIP a) \<noteq> None)
      \<and> (\<exists>(n, c) \<in> set (Providers a). \<forall>client. createProvider N a c \<noteq> Ok client)"
  then have range: "Provision ParseIP N a s
      = Provision_range N (Providers a) (a\<lparr>clients := Map.empty\<rparr>) s"
    by (auto simp add: Provision_unfold)
  have same: "createProvider N (a\<lparr>clients := Map.empty\<rparr>) x = createProvider N a x" for x
    by (rule createProvider_Debug) simp
  from Provision_range_outcome [of N "Providers a" "a\<lparr>clients := Map.empty\<rparr>" s] fails
  show "(\<exists>n c e. (n, c) \<in> set (Providers a) \<and> createProvider N a c = Err e
          \<and> fst (Provision ParseIP N a s)
              = Err (Wrap (''failed to create provider '' @ n @ '': '') e))
      \<or> (\<exists>n m. (n, None) \<in> set (Providers a) \<and> fst (Provision ParseIP N a s) = Panic m)"
    unfolding same range by fastforce
next
  assume ok: "fst (Provision ParseIP N a s) = Ok ()"
  then have range: "Provision ParseIP N a s
      = Provision_range N (Providers a) (a\<lparr>clients := Map.empty\<rparr>) s"
    by (auto simp add: Provision_unfold split: if_splits)
  from ok have "fst (Provision_range N (Providers a) (a\<lparr>clients := Map.empty\<rparr>) s) = Ok ()"
    unfolding range .
  from Provision_range_clients [OF this]
  show "dom (clients (fst (snd (Provision ParseIP N a s)))) = fst ` set (Providers a)"
    unfolding range by simp
qed

theorem Provision_fail_fast_witness:
  "fst (Provision dotted_quad table_constructor (table_app ''999.1.1.1'') (initial Map.empty))
     = Err (Msg ''invalid caddy_ip address: 999.1.1.1'')
   \<and> fst (Provision dotted_quad table_constructor
        ((table_app ''192.168.1.50'')
           \<lparr>Providers := [(''good'', Some (opnsense_config ''opnsense.local'')),
                          (''bad'', Some (opnsense_config []))]\<rparr>)
        (initial Map.empty))
     = Err (Wrap ''failed to create provider bad: '' (Msg ''hostname is required''))"
proof -
  let ?a = "(table_app ''192.168.1.50'')
      \<lparr>Providers := [(''good'', Some (opnsense_config ''opnsense.local'')),
                     (''bad'', Some (opnsense_config []))]\<rparr>"
  let ?bad_ip = "table_app ''999.1.1.1''"
  have good: "createProvider table_constructor ?a (Some (opnsense_config ''opnsense.local''))
      = Ok table_backend"
    and bad: "createProvider table_constructor ?a (Some (opnsense_config []))
      = Err (Msg ''hostname is required'')"
    by (simp_all add: createProvider_def opnsense_config_def table_constructor_def)
  have caddy: "CaddyIP ?bad_ip = ''999.1.1.1''" and caddy': "CaddyIP ?a = ''192.168.1.50''"
    by (simp_all add: table_app_def)
  have invalid: "CaddyIP ?bad_ip \<noteq> [] \<and> dotted_quad (CaddyIP ?bad_ip) = None"
    unfolding caddy by (simp add: dotted_quad_examples)
  have valid: "CaddyIP ?a = [] \<or> dotted_quad (CaddyIP ?a) \<noteq> None"
    unfolding caddy' by (simp add: dotted_quad_examples)
  have entries: "set (Providers ?a) = {(''good'', Some (opnsense_config ''opnsense.local'')),
      (''bad'', Some (opnsense_config []))}"
    by simp
  have fails: "\<exists>(n, c) \<in> set (Providers ?a).
      \<forall>client. createProvider table_constructor ?a c \<noteq> Ok client"
    unfolding entries using bad by simp
  note first = Provision_fail_fast [of ?bad_ip dotted_quad table_constructor "initial Map.empty"]
  note second = Provision_fail_fast [of ?a dotted_quad table_constructor "initial Map.empty"]
  from first invalid
  have one: "fst (Provision dotted_quad table_constructor ?bad_ip (initial Map.empty))
      = Err (Msg (''invalid caddy_ip address: '' @ CaddyIP ?bad_ip))"
    by blast
  from second valid fails
  have "(\<exists>n c e. (n, c) \<in> set (Providers ?a) \<and> createProvider table_constructor ?a c = Err e
          \<and> fst (Provision dotted_quad table_constructor ?a (initial Map.empty))
              = Err (Wrap (''failed to create provider '' @ n @ '': '') e))
      \<or> (\<exists>n m. (n, None) \<in> set (Providers ?a)
          \<and> fst (Provision dotted_quad table_constructor ?a (initial Map.empty)) = Panic m)"
    by blast
  then obtain n c e where "(n, c) \<in> set (Providers ?a)"
    and "createProvider table_constructor ?a c = Err e"
    and named: "fst (Provision dotted_quad table_constructor ?a (initial Map.empty))
              = Err (Wrap (''failed to create provider '' @ n @ '': '') e)"
    unfolding entries by auto
  with good bad have "n = ''bad''" and "e = Msg ''hostname is required''"
    unfolding entries by auto
  with named have two: "fst (Provision dotted_quad table_constructor ?a (initial Map.empty))
      = Err (Wrap ''failed to create provider bad: '' (Msg ''hostname is required''))"
    by simp
  from one two show ?thesis
    unfolding caddy by simp
qed

text \<open>
  C10. The type tags are a closed enumeration. For a configuration whose type is not
  \<open>opnsense\<close>, \<open>createProvider\<close> returns the "unsupported provider type" error,
  whatever the constructor is, and no client; provisioning with such a configuration among
  the entries does not succeed. For the type \<open>opnsense\<close> the result is the one of the
  constructor \<open>NewOPNsenseProvider\<close> on the fields of the configuration.
\<close>

theorem createProvider_closed_enumeration:
  "(Type c \<noteq> ''opnsense'' \<longrightarrow>
      createProvider N a (Some c) = Err (Msg (''unsupported provider type: '' @ Type c))
      \<and> ((n, Some c) \<in> set (Providers a) \<longrightarrow> fst (Provision ParseIP N a s) \<noteq> Ok ()))
   \<and> (Type c = ''opnsense'' \<longrightarrow>
      createProvider N a (Some c) =
        (case N (Hostname c) (APIKey c) (APISecret c) (DNSService c) (Insecure c) (Debug a) of
           Inl err \<Rightarrow> Err err
         | Inr client \<Rightarrow> Ok client))"
proof (intro conjI impI)
  assume other: "Type c \<noteq> ''opnsense''"
  then show unsupported: "createProvider N a (Some c)
      = Err (Msg (''unsupported provider type: '' @ Type c))"
    by (simp add: createProvider_def)
  assume "(n, Some c) \<in> set (Providers a)"
  moreover from unsupported have "\<forall>client. createProvider N a (Some c) \<noteq> Ok client"
    by simp
  ultimately show "fst (Provision ParseIP N a s) \<noteq> Ok ()"
    by (rule Provision_not_Ok)
next
  assume "Type c = ''opnsense''"
  then show "createProvider N a (Some c) =
      (case N (Hostname c) (APIKey c) (APISecret c) (DNSService c) (Insecure c) (Debug a) of
         Inl err \<Rightarrow> Err err
       | Inr client \<Rightarrow> Ok client)"
    by (simp add: createProvider_def)
qed

theorem createProvider_closed_enumeration_witness:
  "createProvider table_constructor (table_app ''192.168.1.50'')
      (Some ((opnsense_config ''pi.hole'')\<lparr>Type := ''pihole''\<rparr>))
     = Err (Msg ''unsupported provider type: pihole'')
   \<and> fst (Provision dotted_quad table_constructor
        ((table_app ''192.168.1.50'')
           \<lparr>Providers := [(''dns'', Some ((opnsense_config ''pi.hole'')\<lparr>Type := ''pihole''\<rparr>))]\<rparr>)
        (initial Map.empty)) \<noteq> Ok ()
   \<and> createProvider table_constructor (table_app ''192.168.1.50'')
        (Some (opnsense_config ''opnsense.local'')) = Ok table_backend"
proof -
  let ?pihole = "(opnsense_config ''pi.hole'')\<lparr>Type := ''pihole''\<rparr>"
  let ?a = "(table_app ''192.168.1.50'')\<lparr>Providers := [(''dns'', Some ?pihole)]\<rparr>"
  have other: "Type ?pihole \<noteq> ''opnsense''"
    by (simp add: opnsense_config_def)
  have listed: "(''dns'', Some ?pihole) \<in> set (Providers ?a)"
    by simp
  have tag: "Type (opnsense_config ''opnsense.local'') = ''opnsense''"
    by (simp add: opnsense_config_def)
  have "createProvider table_constructor (table_app ''192.168.1.50'') (Some ?pihole)
      = Err (Msg ''unsupported provider type: pihole'')"
    using createProvider_closed_enumeration [of ?pihole table_constructor
        "table_app ''192.168.1.50''" "''dns''" dotted_quad "initial Map.empty"] other
    by (simp add: opnsense_config_def)
  moreover have "fst (Provision dotted_quad table_constructor ?a (initial Map.empty)) \<noteq> Ok ()"
    using createProvider_closed_enumeration [of ?pihole table_constructor ?a "''dns''"
        dotted_quad "initial Map.empty"] other listed
    by blast
  moreover have "createProvider table_constructor (table_app ''192.168.1.50'')
      (Some (opnsense_config ''opnsense.local'')) = Ok table_backend"
    using createProvider_closed_enumeration [of "opnsense_config ''opnsense.local''"
        table_constructor "table_app ''192.168.1.50''" "''dns''" dotted_quad
        "initial Map.empty"] tag
    by (simp add: opnsense_config_def table_constructor_def)
  ultimately show ?thesis
    by simp
qed

section \<open>The debug flag\<close>

lemma handleDomain_same_registry:
  assumes "Provider h = Provider h'" and "IPOverride h = IPOverride h'"
    and "clients (app h) = clients (app h')" and "CaddyIP (app h) = CaddyIP (app h')"
  shows "handleDomain ParseIP h domain s = handleDomain ParseIP h' domain s"
  unfolding handleDomain_def assms ..

lemma Provision_range_Debug:
  assumes ctor: "\<forall>hn k sec svc ins. N hn k sec svc ins True = N hn k sec svc ins False"
    and "clients a = clients a'" and "CaddyIP a = CaddyIP a'"
    and "world s = world s'" and "calls s = calls s'"
    and "map (\<lambda>(l, m, fs). (l, m, take 2 fs)) (logs s)
         = map (\<lambda>(l, m, fs). (l, m, take 2 fs)) (logs s')"
  shows "fst (Provision_range N ps a s) = fst (Provision_range N ps a' s')
       \<and> clients (fst (snd (Provision_range N ps a s)))
           = clients (fst (snd (Provision_range N ps a' s')))
       \<and> CaddyIP (fst (snd (Provision_range N ps a s)))
           = CaddyIP (fst (snd (Provision_range N ps a' s')))
       \<and> world (snd (snd (Provision_range N ps a s)))
           = world (snd (snd (Provision_range N ps a' s')))
       \<and> calls (snd (snd (Provision_range N ps a s)))
           = calls (snd (snd (Provision_range N ps a' s')))
       \<and> map (\<lambda>(l, m, fs). (l, m, take 2 fs)) (logs (snd (snd (Provision_range N ps a s))))
           = map (\<lambda>(l, m, fs). (l, m, take 2 fs))
               (logs (snd (snd (Provision_range N ps a' s'))))"
  using assms(2-)
proof (induction ps arbitrary: a a' s s')
  case Nil
  then show ?case by simp
next
  case (Cons entry ps)
  obtain name config where entry: "entry = (name, config)"
    by (cases entry)
  from ctor have flag: "N hn k sec svc ins b = N hn k sec svc ins b'" for hn k sec svc ins b b'
    by (cases b; cases b') simp_all
  have same: "createProvider N a config = createProvider N a' config"
    by (cases config) (simp_all add: createProvider_def flag [of _ _ _ _ _ "Debug a" "Debug a'"])
  show ?case
  proof (cases "createProvider N a' config")
    case (Panic m)
    with same entry Cons.prems show ?thesis by simp
  next
    case (Err e)
    with same entry Cons.prems show ?thesis by simp
  next
    case (Ok client)
    then obtain c where c: "config = Some c"
      using createProvider_Ok by blast
    define fs where "fs = (\<lambda>debug. let fs = [zap_String ''name'' name, zap_String ''type'' (Type c)]
       in if debug then fs @ [zap_String ''hostname'' (Hostname c),
            zap_String ''dns_service'' (DNSService c), zap_Bool ''insecure'' (Insecure c)]
          else fs)"
    have step: "Provision_range N (entry # ps) a s
        = Provision_range N ps (a\<lparr>clients := (clients a)(name \<mapsto> client)\<rparr>)
            (logger_Info ''initialized DNS provider'' (fs (Debug a)) s)"
      and step': "Provision_range N (entry # ps) a' s'
        = Provision_range N ps (a'\<lparr>clients := (clients a')(name \<mapsto> client)\<rparr>)
            (logger_Info ''initialized DNS provider'' (fs (Debug a')) s')"
      using Ok same c entry by (simp_all add: fs_def Let_def)
    have "take 2 (fs b) = take 2 (fs b')" for b b'
      by (simp add: fs_def Let_def)
    then have logs: "map (\<lambda>(l, m, fs). (l, m, take 2 fs))
          (logs (logger_Info ''initialized DNS provider'' (fs (Debug a)) s))
        = map (\<lambda>(l, m, fs). (l, m, take 2 fs))
          (logs (logger_Info ''initialized DNS provider'' (fs (Debug a')) s'))"
      using Cons.prems by (simp add: logger_Info_def)
    from Cons.prems logs show ?thesis
      unfolding step step'
      by (intro Cons.IH) (simp_all add: logger_Info_def)
  qed
qed

text \<open>
  C9. With a constructor whose result does not depend on the debug flag it is handed,
  provisioning with the flag set and with the flag clear give the same result and the same
  clients; a handler bound to either provisioned app reconciles every domain from every
  state with the same result, calls and state; and the two logs of provisioning have the
  same entries up to the fields that the flag adds after the name and the type.
\<close>

theorem Debug_only_widens_log:
  assumes "\<forall>hn k sec svc ins. N hn k sec svc ins True = N hn k sec svc ins False"
  shows "fst (Provision ParseIP N (a\<lparr>Debug := True\<rparr>) s)
           = fst (Provision ParseIP N (a\<lparr>Debug := False\<rparr>) s)
       \<and> clients (fst (snd (Provision ParseIP N (a\<lparr>Debug := True\<rparr>) s)))
           = clients (fst (snd (Provision ParseIP N (a\<lparr>Debug := False\<rparr>) s)))
       \<and> (\<forall>name override domain t.
            handleDomain ParseIP
              \<lparr>Provider = name, IPOverride = override,
               app = fst (snd (Provision ParseIP N (a\<lparr>Debug := True\<rparr>) s))\<rparr> domain t
            = handleDomain ParseIP
              \<lparr>Provider = name, IPOverride = override,
               app = fst (snd (Provision ParseIP N (a\<lparr>Debug := False\<rparr>) s))\<rparr> domain t)
       \<and> map (\<lambda>(l, m, fs). (l, m, take 2 fs))
            (logs (snd (snd (Provision ParseIP N (a\<lparr>Debug := True\<rparr>) s))))
           = map (\<lambda>(l, m, fs). (l, m, take 2 fs))
            (logs (snd (snd (Provision ParseIP N (a\<lparr>Debug := False\<rparr>) s))))"
proof (cases "CaddyIP a \<noteq> [] \<and> ParseIP (CaddyIP a) = None")
  case True
  then show ?thesis
    by (simp add: Provision_unfold handleDomain_same_registry)
next
  case False
  let ?on = "Provision_range N (Providers a) (a\<lparr>Debug := True, clients := Map.empty\<rparr>) s"
  let ?off = "Provision_range N (Providers a) (a\<lparr>Debug := False, clients := Map.empty\<rparr>) s"
  from False have on: "Provision ParseIP N (a\<lparr>Debug := True\<rparr>) s = ?on"
    and off: "Provision ParseIP N (a\<lparr>Debug := False\<rparr>) s = ?off"
    by (auto simp add: Provision_unfold)
  have rel: "fst ?on = fst ?off
      \<and> clients (fst (snd ?on)) = clients (fst (snd ?off))
      \<and> CaddyIP (fst (snd ?on)) = CaddyIP (fst (snd ?off))
      \<and> world (snd (snd ?on)) = world (snd (snd ?off))
      \<and> calls (snd (snd ?on)) = calls (snd (snd ?off))
      \<and> map (\<lambda>(l, m, fs). (l, m, take 2 fs)) (logs (snd (snd ?on)))
          = map (\<lambda>(l, m, fs). (l, m, take 2 fs)) (logs (snd (snd ?off)))"
    by (rule Provision_range_Debug [OF assms]) simp_all
  then show ?thesis
    unfolding on off by (simp add: handleDomain_same_registry)
qed

theorem Debug_only_widens_log_witness:
  "fst (Provision dotted_quad table_constructor
          ((table_app ''192.168.1.50'')\<lparr>Debug := True\<rparr>) (initial Map.empty))
     = fst (Provision dotted_quad table_constructor
          ((table_app ''192.168.1.50'')\<lparr>Debug := False\<rparr>) (initial Map.empty))
   \<and> logs (snd (snd (Provision dotted_quad table_constructor
          ((table_app ''192.168.1.50'')\<lparr>Debug := True\<rparr>) (initial Map.empty))))
     = [(InfoLevel, ''initialized DNS provider'',
         [zap_String ''name'' ''opnsense'', zap_String ''type'' ''opnsense'',
          zap_String ''hostname'' ''opnsense.local'', zap_String ''dns_service'' ''unbound'',
          zap_Bool ''insecure'' False])]
   \<and> logs (snd (snd (Provision dotted_quad table_constructor
          ((table_app ''192.168.1.50'')\<lparr>Debug := False\<rparr>) (initial Map.empty))))
     = [(InfoLevel, ''initialized DNS provider'',
         [zap_String ''name'' ''opnsense'', zap_String ''type'' ''opnsense''])]"
proof -
  let ?a = "\<lambda>debug. (table_app ''192.168.1.50'')\<lparr>Debug := debug\<rparr>"
  have ignores: "\<forall>hn k sec svc ins.
      table_constructor hn k sec svc ins True = table_constructor hn k sec svc ins False"
    by (simp add: table_constructor_def)
  have caddy: "CaddyIP (?a debug) = ''192.168.1.50''"
    and entries: "Providers (?a debug) = [(''opnsense'', Some (opnsense_config ''opnsense.local''))]"
    for debug
    by (simp_all add: table_app_def)
  have made: "createProvider table_constructor a' (Some (opnsense_config ''opnsense.local''))
      = Ok table_backend" for a' :: "(string \<rightharpoonup> Record) App"
    by (simp add: createProvider_def opnsense_config_def table_constructor_def)
  have config: "Type (opnsense_config hn) = ''opnsense''" "Hostname (opnsense_config hn) = hn"
    "DNSService (opnsense_config hn) = ''unbound''" "Insecure (opnsense_config hn) = False"
    for hn
    by (simp_all add: opnsense_config_def)
  have "dotted_quad (CaddyIP (?a debug)) \<noteq> None" for debug
    unfolding caddy by (simp add: dotted_quad_examples)
  then have range: "Provision dotted_quad table_constructor (?a debug) (initial Map.empty)
      = Provision_range table_constructor (Providers (?a debug))
          ((?a debug)\<lparr>clients := Map.empty\<rparr>) (initial Map.empty)" for debug
    by (auto simp add: Provision_unfold)
  have on: "logs (snd (snd (Provision dotted_quad table_constructor (?a True)
        (initial Map.empty))))
     = [(InfoLevel, ''initialized DNS provider'',
         [zap_String ''name'' ''opnsense'', zap_String ''type'' ''opnsense'',
          zap_String ''hostname'' ''opnsense.local'', zap_String ''dns_service'' ''unbound'',
          zap_Bool ''insecure'' False])]"
    unfolding range entries
    by (simp add: made Let_def logger_Info_def initial_def config)
  have off: "logs (snd (snd (Provision dotted_quad table_constructor (?a False)
        (initial Map.empty))))
     = [(InfoLevel, ''initialized DNS provider'',
         [zap_String ''name'' ''opnsense'', zap_String ''type'' ''opnsense''])]"
    unfolding range entries
    by (simp add: made Let_def logger_Info_def initial_def config)
  from Debug_only_widens_log [where ParseIP = dotted_quad and a = "table_app ''192.168.1.50''"
      and s = "initial Map.empty", OF ignores]
  have "fst (Provision dotted_quad table_constructor (?a True) (initial Map.empty))
      = fst (Provision dotted_quad table_constructor (?a False) (initial Map.empty))"
    by (rule conjunct1)
  with on off show ?thesis
    by simp
qed

end
